theory Spec2Isabelle
  imports Main "HOL-Library.Word"
begin

section \<open>JavaScript strings\<close>

text \<open>
  A JavaScript string is a sequence of 16-bit code units; \<open>length\<close>, \<open>substring\<close>,
  \<open>indexOf\<close> and the regular-expression indices all count code units.  The function
  \<open>js\<close> turns an ASCII literal into such a sequence.
\<close>

type_synonym jschar = "16 word"
type_synonym jsstring = "jschar list"

definition js :: "string \<Rightarrow> jsstring" where
  "js s = map of_char s"

text \<open>
  \<open>String.prototype.trim\<close> removes WhiteSpace and LineTerminator code units from both
  ends (ECMAScript: TAB, VT, FF, SP, NBSP, ZWNBSP, the Unicode space separators, and
  LF, CR, LS, PS).
\<close>

definition isLineTerminator :: "jschar \<Rightarrow> bool" where
  "isLineTerminator c = (c = 0x0A \<or> c = 0x0D \<or> c = 0x2028 \<or> c = 0x2029)"

definition isWhite :: "jschar \<Rightarrow> bool" where
  "isWhite c = (c = 0x09 \<or> c = 0x0B \<or> c = 0x0C \<or> c = 0x20 \<or> c = 0xA0 \<or> c = 0xFEFF
     \<or> c = 0x1680 \<or> (0x2000 \<le> c \<and> c \<le> 0x200A) \<or> c = 0x202F \<or> c = 0x205F \<or> c = 0x3000
     \<or> isLineTerminator c)"

definition trimStart :: "jsstring \<Rightarrow> jsstring" where
  "trimStart s = dropWhile isWhite s"

definition trimEnd :: "jsstring \<Rightarrow> jsstring" where
  "trimEnd s = rev (dropWhile isWhite (rev s))"

definition trim :: "jsstring \<Rightarrow> jsstring" where
  "trim s = trimEnd (trimStart s)"

text \<open>\<open>!s.trim()\<close>: the trimmed string is empty (the only falsy string).\<close>

definition blank :: "jsstring \<Rightarrow> bool" where
  "blank s = (trim s = [])"

definition startsWith :: "jsstring \<Rightarrow> jsstring \<Rightarrow> bool" where
  "startsWith s p = (take (length p) s = p)"

definition endsWith :: "jsstring \<Rightarrow> jsstring \<Rightarrow> bool" where
  "endsWith s p = (length p \<le> length s \<and> drop (length s - length p) s = p)"

text \<open>\<open>s.includes(p)\<close>: scan for the first position at which \<open>p\<close> starts.\<close>

fun str_includes :: "jsstring \<Rightarrow> jsstring \<Rightarrow> bool" where
  "str_includes [] p = (p = [])"
| "str_includes (c # cs) p = (startsWith (c # cs) p \<or> str_includes cs p)"

text \<open>\<open>xs.join(sep)\<close> on an array of strings.\<close>

fun js_join :: "jsstring \<Rightarrow> jsstring list \<Rightarrow> jsstring" where
  "js_join sep [] = []"
| "js_join sep [x] = x"
| "js_join sep (x # y # ys) = x @ sep @ js_join sep (y # ys)"

text \<open>
  \<open>s.split(sep)\<close> with a string separator: cut at each occurrence of \<open>sep\<close>, found
  left to right and not overlapping; an empty separator cuts between all code units.
\<close>

function split_go :: "jsstring \<Rightarrow> jsstring \<Rightarrow> jsstring \<Rightarrow> jsstring list" where
  "split_go sep acc [] = [rev acc]"
| "split_go sep acc (c # cs) =
     (if sep \<noteq> [] \<and> startsWith (c # cs) sep
      then rev acc # split_go sep [] (drop (length sep) (c # cs))
      else split_go sep (c # acc) cs)"
  by pat_completeness auto
termination
  by (relation "measure (\<lambda>(sep, acc, s). length s)") auto

definition js_split :: "jsstring \<Rightarrow> jsstring \<Rightarrow> jsstring list" where
  "js_split s sep = (if sep = [] then map (\<lambda>c. [c]) s else split_go sep [] s)"

section \<open>App.tsx: the option types\<close>

datatype OutputFormat = Tsv | Csv | Json
datatype CardType = Basic | Mcq | Cloze
datatype ExtractionMethod = NoExtraction | Auto | Regex | Ai | UserQuestions

record GenerationOptions =
  model :: jsstring
  outputFormat :: OutputFormat
  cardType :: CardType
  numberOfCards :: jsstring
  extractionMethod :: ExtractionMethod
  questionList :: jsstring

section \<open>services/geminiService.ts: the prompt builder\<close>

text \<open>
  \<open>parseInt(s, 10)\<close>: skip leading white space, read an optional sign, then the longest
  run of decimal digits; \<open>None\<close> stands for \<open>NaN\<close> (no digit).  The result is a
  JavaScript Number; integers up to \<open>2 ^ 53\<close> are represented exactly, and the model
  keeps the mathematical value.
\<close>

definition isDigit :: "jschar \<Rightarrow> bool" where
  "isDigit c = (0x30 \<le> c \<and> c \<le> 0x39)"

definition digitsValue :: "jsstring \<Rightarrow> nat" where
  "digitsValue ds = foldl (\<lambda>v c. 10 * v + (unat c - 48)) 0 ds"

definition parseInt10 :: "jsstring \<Rightarrow> int option" where
  "parseInt10 s =
     (let t = trimStart s;
          neg = (t \<noteq> [] \<and> hd t = 0x2D);
          u = (if t \<noteq> [] \<and> (hd t = 0x2B \<or> hd t = 0x2D) then tl t else t);
          z = takeWhile isDigit u
      in if z = [] then None
         else Some (if neg then - int (digitsValue z) else int (digitsValue z)))"

text \<open>
  \<open>Number.prototype.toString\<close> at an integer the Number represents exactly (and below
  \<open>10 ^ 21\<close>): its decimal digits, most significant first.
\<close>

fun natToString :: "nat \<Rightarrow> jsstring" where
  "natToString n =
     (if n < 10 then [of_nat (48 + n)]
      else natToString (n div 10) @ [of_nat (48 + n mod 10)])"

declare natToString.simps [simp del]

definition numberToString :: "int \<Rightarrow> jsstring" where
  "numberToString i = (if i < 0 then 0x2D # natToString (nat (- i)) else natToString (nat i))"

text \<open>\<open>s.replace(/"/g, r)\<close>: every double quote of \<open>s\<close> is replaced by \<open>r\<close>.\<close>

definition replaceQuotes :: "jsstring \<Rightarrow> jsstring \<Rightarrow> jsstring" where
  "replaceQuotes s r = concat (map (\<lambda>c. if c = 0x22 then r else [c]) s)"

text \<open>The table \<open>examples\<close> of \<open>getFormatInstructions\<close>: front and back per card type.\<close>

definition exampleFront :: "CardType \<Rightarrow> jsstring" where
  \<open>exampleFront ct =
     (case ct of
        Basic \<Rightarrow>
          js ''What causes <b>Community-Acquired Pneumonia</b>?''
      | Mcq \<Rightarrow>
          js ''Which organism causes <i>most</i> UTIs?''
      | Cloze \<Rightarrow>
          js ''{{c1::<b>Streptococcus pneumoniae</b>}} is the most common cause of community-acquired '' @
          js ''pneumonia.'')\<close>

definition exampleBack :: "CardType \<Rightarrow> jsstring" where
  \<open>exampleBack ct =
     (case ct of
        Basic \<Rightarrow>
          js ''Common pathogens:<ul><li><i>Streptococcus pneumoniae</i></li><li>Haemophilus influenzae</li><li>Mycoplasma '' @
          js ''pneumoniae</li></ul>''
      | Mcq \<Rightarrow>
          js ''A) E. coli '' @
          [0x2713] @
          js ''<br>B) S. aureus<br>C) Pseudomonas<br>D) Klebsiella''
      | Cloze \<Rightarrow>
          js ''<b>Streptococcus pneumoniae</b> is the most common cause of community-acquired '' @
          js ''pneumonia.'')\<close>

definition formattingInstruction :: jsstring where
  \<open>formattingInstruction =
     js ''Use standard HTML tags (e.g., <b>, <i>, <ul>, <li>, <br>) to preserve formatting '' @
     js ''like bolding, italics, and lists from the original text.''\<close>

definition getFormatInstructions :: "OutputFormat \<Rightarrow> CardType \<Rightarrow> jsstring" where
  \<open>getFormatInstructions fmt ct =
     (let frontExample = exampleFront ct; backExample = exampleBack ct
      in case fmt of
        Csv \<Rightarrow>
          js ''**FORMAT:** Use Comma-Separated Values (CSV) format with exactly 2 columns. Do '' @
          js ''not include a header row. Each line must be a single card with the front and back '' @
          js ''enclosed in double quotes and separated by a comma. Properly escape any double '' @
          js ''quotes within the content by doubling them. '' @
          formattingInstruction @
          js ''\<newline>'' @
          js ''      \<newline>'' @
          js ''      **EXAMPLE OF DESIRED FORMAT:**\<newline>'' @
          js ''      \<newline>'' @
          js ''      "'' @
          replaceQuotes frontExample (js ''""'') @
          js ''","'' @
          replaceQuotes backExample (js ''""'') @
          js ''"''
      | Json \<Rightarrow>
          js ''**FORMAT:** Use JSON format. The output MUST be a valid JSON array of objects. '' @
          js ''Each object in the array should represent a single flashcard and have two keys: '' @
          js ''"front" and "back". Do not include any other text or formatting outside the JSON '' @
          js ''array. The "front" and "back" values should be strings. '' @
          formattingInstruction @
          js ''\<newline>'' @
          js ''\<newline>'' @
          js ''      **EXAMPLE OF DESIRED FORMAT:**\<newline>'' @
          js ''      \<newline>'' @
          js ''      [\<newline>'' @
          js ''        {\<newline>'' @
          js ''          "front": "'' @
          replaceQuotes frontExample ([0x5C] @ js ''"'') @
          js ''",\<newline>'' @
          js ''          "back": "'' @
          replaceQuotes backExample ([0x5C] @ js ''"'') @
          js ''"\<newline>'' @
          js ''        }\<newline>'' @
          js ''      ]''
      | Tsv \<Rightarrow>
          js ''**FORMAT:** Use Tab-Separated Values (TSV) format with exactly 2 columns. Do not '' @
          js ''include a header row like "Front'' @
          [0x5C] @
          js ''tBack". Each line must be a single card with the front and back separated by a '' @
          js ''single tab character ('' @
          [0x27] @
          [0x5C] @
          js ''t'). '' @
          formattingInstruction @
          js ''\<newline>'' @
          js ''\<newline>'' @
          js ''      **EXAMPLE OF DESIRED FORMAT:**\<newline>'' @
          js ''      \<newline>'' @
          js ''      '' @
          frontExample @
          [0x09] @
          backExample)\<close>

definition getCardTypeInstructions :: "CardType \<Rightarrow> jsstring" where
  \<open>getCardTypeInstructions ct =
     (case ct of
        Mcq \<Rightarrow>
          js ''\<newline>'' @
          js ''**Instructions for "Multiple Choice":**\<newline>'' @
          js ''*   For the 'Front', create a clear, answerable question based on the input text.\<newline>'' @
          js ''*   For the 'Back', provide multiple distinct answer options (e.g., A, B, C, D).\<newline>'' @
          js ''*   Ensure one option is clearly the correct answer and is derived from the text.\<newline>'' @
          js ''*   Mark the correct answer by appending a checkmark ('' @
          [0x2713] @
          js '') to it.\<newline>''
      | Cloze \<Rightarrow>
          js ''\<newline>'' @
          js ''**Instructions for "Cloze Deletion":**\<newline>'' @
          js ''*   For the 'Front', take a key sentence from the text and hide a critical term '' @
          js ''or phrase using the Anki cloze format: `{{c1::hidden text}}`.\<newline>'' @
          js ''*   Create only one cloze (c1) per card.\<newline>'' @
          js ''*   The 'Back' should contain the full, unedited sentence for context.\<newline>'' @
          js ''*   Focus on hiding the most important piece of information in the sentence.\<newline>''
      | Basic \<Rightarrow>
          js ''\<newline>'' @
          js ''**Instructions for "Basic Q&A":**\<newline>'' @
          js ''*   'Front' should be a clear, focused question.\<newline>'' @
          js ''*   'Back' should be a comprehensive but concise answer.\<newline>'')\<close>

definition systemInstructionText :: jsstring where
  \<open>systemInstructionText =
     js ''You are an expert Anki flashcard creator. Your task is to convert the provided '' @
     js ''text into a structured data format for flashcards. You must adhere strictly to '' @
     js ''the format and card type instructions. The output MUST BE ONLY the requested data '' @
     js ''format. Do not add any introductory text, explanations, summaries, or code block '' @
     js ''formatting like ``` ... ```. The entire response should be parsable as a raw file '' @
     js ''of the specified format.''\<close>

definition quantityInstructionOf :: "jsstring \<Rightarrow> jsstring" where
  \<open>quantityInstructionOf numberOfCards' =
     (let parsed = parseInt10 numberOfCards';
          otherwise =
            js ''Generate an appropriate number of flashcards based on the length and density of '' @
            js ''the input text.''
      in case parsed of
           None \<Rightarrow> otherwise
         | Some n \<Rightarrow>
             if n > 0 then js ''Generate exactly '' @ numberToString n @ js '' flashcards.''
             else otherwise)\<close>

record PromptParts =
  systemInstruction :: jsstring
  userContent :: jsstring

definition createPromptParts :: "jsstring \<Rightarrow> 'a GenerationOptions_scheme \<Rightarrow> PromptParts" where
  \<open>createPromptParts userInput opts =
     (let quantityInstruction = quantityInstructionOf (numberOfCards opts);
          (taskInstruction, mainInputBlock) =
            (if extractionMethod opts = UserQuestions \<and> questionList opts \<noteq> [] then
               (js ''\<newline>'' @
                js ''**TASK:** Your task is to act as a research assistant. You have been given a **CONTEXT '' @
                js ''DOCUMENT** and a **LIST OF QUESTIONS**. For each question in the list, you must '' @
                js ''find the answer within the context document.\<newline>'' @
                js ''\<newline>'' @
                js ''Create one flashcard for each question.\<newline>'' @
                js ''- The 'Front' of the card MUST be the question from the list, exactly as written.\<newline>'' @
                js ''- The 'Back' of the card MUST contain the complete, unabridged answer derived '' @
                js ''*exclusively* from the **CONTEXT DOCUMENT**. You must extract the entire relevant '' @
                js ''passage or section that answers the question. DO NOT summarize, shorten, or omit '' @
                js ''any information from the source text. You can reformat the text using HTML for '' @
                js ''better readability (like lists or bolding), but the core information must be fully '' @
                js ''preserved.\<newline>'' @
                js ''\<newline>'' @
                js ''If the answer to a specific question cannot be found in the context document, '' @
                js ''the 'Back' of the card for that question should be exactly: "Answer not found '' @
                js ''in the provided text."\<newline>'' @
                js ''\<newline>'' @
                js ''Finally, format all the generated flashcards according to the specifications below.'',
                js ''\<newline>'' @
                js ''**CONTEXT DOCUMENT:**\<newline>'' @
                js ''---\<newline>'' @
                userInput @
                js ''\<newline>'' @
                js ''---\<newline>'' @
                js ''\<newline>'' @
                js ''**LIST OF QUESTIONS:**\<newline>'' @
                js ''---\<newline>'' @
                questionList opts @
                js ''\<newline>'' @
                js ''---\<newline>'')
             else if extractionMethod opts = Ai then
               (js ''\<newline>'' @
                js ''**TASK:** Your primary task is to act as an expert educator. First, thoroughly '' @
                js ''analyze the **INPUT TEXT** to identify the most important concepts, facts, and '' @
                js ''relationships. Based on your analysis, generate a series of insightful questions '' @
                js ''that cover these key areas.\<newline>'' @
                js ''\<newline>'' @
                js ''Once you have formulated the questions, create one flashcard for each question. '' @
                js ''The 'Front' of the card should be the question you generated. The 'Back' of the '' @
                js ''card must be a concise, accurate answer derived *exclusively* from the information '' @
                js ''present in the **INPUT TEXT**.\<newline>'' @
                js ''\<newline>'' @
                js ''Finally, format all the generated flashcards according to the specifications below.'',
                js ''\<newline>'' @
                js ''**INPUT TEXT:**\<newline>'' @
                js ''---\<newline>'' @
                userInput @
                js ''\<newline>'' @
                js ''---\<newline>'')
             else
               (js ''\<newline>'' @
                js ''**TASK:** Convert the input text into flashcards with the following specifications.'',
                js ''\<newline>'' @
                js ''**INPUT TEXT:**\<newline>'' @
                js ''---\<newline>'' @
                userInput @
                js ''\<newline>'' @
                js ''---\<newline>''))
      in \<lparr> systemInstruction = systemInstructionText,
           userContent =
             js ''\<newline>'' @
             mainInputBlock @
             js ''\<newline>'' @
             js ''\<newline>'' @
             taskInstruction @
             js ''\<newline>'' @
             js ''\<newline>'' @
             js ''**SPECIFICATIONS:**\<newline>'' @
             js ''\<newline>'' @
             js ''1.  **OUTPUT FORMAT DETAILS:**\<newline>'' @
             js ''    '' @
             getFormatInstructions (outputFormat opts) (cardType opts) @
             js ''\<newline>'' @
             js ''\<newline>'' @
             js ''2.  **CARD TYPE DETAILS:**\<newline>'' @
             js ''    '' @
             getCardTypeInstructions (cardType opts) @
             js ''\<newline>'' @
             js ''\<newline>'' @
             js ''3.  **QUANTITY:** '' @
             quantityInstruction @
             js ''\<newline>'' @
             js ''\<newline>'' @
             js ''4.  **CONTENT RULES:**\<newline>'' @
             js ''    *   **FORMATTING:** Retain original text formatting (bold, italics, lists) '' @
             js ''using HTML tags (e.g., <b>, <i>, <ul>, <li>). This is crucial for Anki compatibility.\<newline>'' @
             js ''    *   Create 1 card per key concept/fact unless a specific quantity is requested.\<newline>'' @
             js ''    *   Keep questions/prompts clear and focused.\<newline>'' @
             js ''    *   Answers should be comprehensive but concise.\<newline>'' @
             js ''    *   Prioritize high-yield information for exams or study.\<newline>'' @
             js ''    *   Use simple language without sacrificing accuracy.\<newline>'' @
             js ''    *   **PRESERVE EXISTING QUESTIONS:** If the input text already contains full '' @
             js ''questions, use them verbatim for the 'Front' of the flashcard. Your main task '' @
             js ''is to generate the corresponding answer for the 'Back' from the provided text. '' @
             js ''Do not change the original questions.\<newline>'' @
             js ''\<newline>'' @
             js ''**START CONVERSION NOW. Your entire response must be the raw data in the specified '' @
             js ''format, with no extra text.**\<newline>'' \<rparr>)\<close>

section \<open>services/geminiService.ts: the generation client\<close>

text \<open>
  What a \<open>catch\<close> clause receives: an \<open>Error\<close> object with its message, or any other
  thrown value (for which \<open>error instanceof Error\<close> is false).
\<close>

datatype thrown = JsError jsstring | NonError

text \<open>The \<open>catch\<close> block of \<open>generateFlashcardsStream\<close>: the message of the new error.\<close>

definition mapFailure :: "thrown \<Rightarrow> jsstring" where
  "mapFailure e =
     (case e of
        NonError \<Rightarrow> js ''An unexpected error occurred.''
      | JsError m \<Rightarrow>
          if str_includes m (js ''API key not valid'') then js ''API_KEY_INVALID''
          else if str_includes m (js ''RESOURCE_EXHAUSTED'') \<or> str_includes m (js ''rate limit'')
            then js ''RATE_LIMIT_EXCEEDED''
          else if str_includes m (js ''candidate'') \<and> str_includes m (js ''was blocked'')
            then js ''CONTENT_BLOCKED''
          else js ''An unexpected error occurred.'')"

text \<open>
  The provider call \<open>ai.models.generateContentStream\<close> is outside the repository; it is
  a parameter.  Its reply is the sequence of chunks it streams (each with an optional
  \<open>text\<close>) and, if the call or the stream fails, the value thrown after them.
\<close>

record ThinkingConfig =
  thinkingBudget :: nat

record GenerateContentConfig =
  configSystemInstruction :: jsstring
  thinkingConfig :: "ThinkingConfig option"

record GenerateContentParameters =
  requestModel :: jsstring
  contents :: jsstring
  config :: GenerateContentConfig

datatype reply = Reply (chunkTexts: "jsstring option list") (failure: "thrown option")

type_synonym provider = "GenerateContentParameters \<Rightarrow> reply"

text \<open>The argument of \<open>generateContentStream\<close> built by \<open>generateFlashcardsStream\<close>.\<close>

definition streamRequest :: "jsstring \<Rightarrow> 'a GenerationOptions_scheme \<Rightarrow> GenerateContentParameters" where
  "streamRequest userInput opts =
     (let parts = createPromptParts userInput opts;
          model' = model opts;
          config' = \<lparr> configSystemInstruction = systemInstruction parts,
                      thinkingConfig =
                        (if model' = js ''gemini-2.5-pro''
                         then Some \<lparr> thinkingBudget = 32768 \<rparr> else None) \<rparr>
      in \<lparr> requestModel = model', contents = userContent parts, config = config' \<rparr>)"

text \<open>
  The generator: the texts it yields (a chunk whose \<open>text\<close> is undefined or empty is
  skipped) and the error it throws at the end, if any.  Whatever is thrown inside the
  \<open>try\<close> is replaced by a new \<open>Error\<close> carrying the mapped message.
\<close>

definition generateFlashcardsStream ::
    "provider \<Rightarrow> jsstring \<Rightarrow> 'a GenerationOptions_scheme \<Rightarrow> jsstring list \<times> thrown option" where
  "generateFlashcardsStream ai userInput opts =
     (let r = ai (streamRequest userInput opts)
      in (concat (map (\<lambda>t. case t of None \<Rightarrow> [] | Some x \<Rightarrow> if x = [] then [] else [x]) (chunkTexts r)),
          map_option (\<lambda>e. JsError (mapFailure e)) (failure r)))"

section \<open>The regular-expression engine of the host\<close>

text \<open>
  \<open>RegExp\<close> and \<open>String.prototype.matchAll\<close> belong to the JavaScript runtime, not to the
  repository; the engine is a parameter.  \<open>rx_error pattern flags\<close> is the message of
  the SyntaxError that \<open>new RegExp(pattern, flags)\<close> throws, if it throws;
  \<open>rx_scan pattern flags text\<close> is the sequence of matches that the compiled global
  expression yields over the text.  A match carries \<open>match.index\<close>, \<open>match[0]\<close>,
  the captures \<open>match[1]\<close>, \<open>match[2]\<close>, ... (\<open>None\<close> for undefined) and
  \<open>match.indices\<close> (present under the \<open>d\<close> flag).
\<close>

record jsmatch =
  matchIndex :: nat
  whole :: jsstring
  captures :: "jsstring option list"
  indices :: "(nat \<times> nat) option list option"

record regexHost =
  rx_error :: "jsstring \<Rightarrow> jsstring \<Rightarrow> jsstring option"
  rx_scan :: "jsstring \<Rightarrow> jsstring \<Rightarrow> jsstring \<Rightarrow> jsmatch list"

definition newRegExp :: "regexHost \<Rightarrow> jsstring \<Rightarrow> jsstring \<Rightarrow> thrown + jsstring \<times> jsstring" where
  "newRegExp H pattern flags =
     (case rx_error H pattern flags of
        Some msg \<Rightarrow> Inl (JsError msg)
      | None \<Rightarrow> Inr (pattern, flags))"

text \<open>
  \<open>text.matchAll(regex)\<close> throws a TypeError when the flags of \<open>regex\<close> lack \<open>g\<close>
  (ECMAScript, String.prototype.matchAll, step 2.b.iii).
\<close>

definition matchAll :: "regexHost \<Rightarrow> jsstring \<Rightarrow> jsstring \<times> jsstring \<Rightarrow> thrown + jsmatch list" where
  "matchAll H text regex =
     (case regex of (pattern, flags) \<Rightarrow>
        if 0x67 \<notin> set flags
        then Inl (JsError (js ''String.prototype.matchAll called with a non-global RegExp argument''))
        else Inr (rx_scan H pattern flags text))"

text \<open>\<open>match[1] ?? match[0]\<close>\<close>

definition firstGroupOrWhole :: "jsmatch \<Rightarrow> jsstring" where
  "firstGroupOrWhole m = (case captures m of Some g # _ \<Rightarrow> g | _ \<Rightarrow> whole m)"

section \<open>App.tsx: handleGenerate\<close>

record app = GenerationOptions +
  inputText :: jsstring
  outputText :: jsstring
  isLoading :: bool
  error :: "jsstring option"
  regexPattern :: jsstring
  regexFlags :: jsstring

definition getFriendlyErrorMessage :: "jsstring \<Rightarrow> jsstring" where
  \<open>getFriendlyErrorMessage errorMessage =
     (if errorMessage = js ''API_KEY_INVALID'' then
        js ''API Key Error: The provided API key is invalid. Please ensure it's correct '' @
        js ''and has the necessary permissions.''
      else if errorMessage = js ''RATE_LIMIT_EXCEEDED'' then
        js ''Rate Limit Exceeded: You've made too many requests in a short period. '' @
        js ''Please wait a moment before trying again.''
      else if errorMessage = js ''CONTENT_BLOCKED'' then
        js ''Content Safety Error: The request was blocked due to safety settings. '' @
        js ''Please modify your input text and try again.''
      else
        js ''An unexpected error occurred. Please check your network connection or try '' @
        js ''again later.'')\<close>

text \<open>
  The split of the auto mode, \<open>inputText.split(/(?=^Q:|^Question:|^[-*] )/m)\<close>.  The
  separator is a lookahead and matches the empty string, so nothing is removed.  By the
  split algorithm of ECMAScript (RegExp.prototype[@@split]) an empty match at the
  position where the current piece starts is skipped; hence the text is cut at every
  position \<open>q\<close> with \<open>0 < q < length\<close> where the lookahead succeeds: the code unit
  before \<open>q\<close> is a line terminator (\<open>^\<close> under the \<open>m\<close> flag) and a marker starts at
  \<open>q\<close>; the class \<open>[-*]\<close> followed by a space stands for the two markers \<open>"- "\<close> and
  \<open>"* "\<close>.  The empty text gives the single piece \<open>""\<close>.
\<close>

definition markers :: "jsstring list" where
  "markers = [js ''Q:'', js ''Question:'', js ''- '', js ''* '']"

definition markerAt :: "jsstring \<Rightarrow> bool" where
  "markerAt s = list_ex (startsWith s) markers"

fun splitPieces :: "jsstring \<Rightarrow> jschar \<Rightarrow> jsstring \<Rightarrow> jsstring list" where
  "splitPieces acc prev [] = [rev acc]"
| "splitPieces acc prev (c # cs) =
     (if isLineTerminator prev \<and> markerAt (c # cs)
      then rev acc # splitPieces [c] c cs
      else splitPieces (c # acc) c cs)"

definition splitAtMarkers :: "jsstring \<Rightarrow> jsstring list" where
  "splitAtMarkers s = (case s of [] \<Rightarrow> [[]] | c # cs \<Rightarrow> splitPieces [c] c cs)"

text \<open>
  The part of \<open>handleGenerate\<close> between \<open>setError(null)\<close> and the emptiness check: it
  either returns (after \<open>setError\<close>) or goes on with \<open>processedInput\<close>.  The \<open>catch\<close> of
  the auto branch has no counterpart: \<open>split\<close>, \<open>filter\<close> and \<open>join\<close> do not throw
  on strings.
\<close>

datatype continuation = Return | Continue jsstring

definition extractInput :: "regexHost \<Rightarrow> app \<Rightarrow> app \<times> continuation" where
  \<open>extractInput H st =
     (if extractionMethod st = Auto then
        (let matches = filter (\<lambda>s. \<not> blank s) (splitAtMarkers (inputText st))
         in if length matches > 0
            then (st, Continue (js_join (js ''\<newline>\<newline>'') matches))
            else (st\<lparr>error := Some (
                    js ''Auto-detect mode is on, but no lines starting with "Q:", "Question:", '' @
                    js ''"- ", or "* " were found. Processing all text.'')\<rparr>,
                  Continue (inputText st)))
      else if extractionMethod st = Regex \<and> \<not> blank (regexPattern st) then
        (case newRegExp H (regexPattern st) (regexFlags st) of
           Inl e \<Rightarrow>
             (st\<lparr>error := Some (js ''Invalid regular expression pattern or flags.'')\<rparr>, Return)
         | Inr regex \<Rightarrow>
             (case matchAll H (inputText st) regex of
                Inl e \<Rightarrow>
                  (st\<lparr>error := Some (js ''Invalid regular expression pattern or flags.'')\<rparr>, Return)
              | Inr matches \<Rightarrow>
                  if length matches > 0
                  then (st, Continue (js_join (js ''\<newline>\<newline>'') (map firstGroupOrWhole matches)))
                  else (st\<lparr>error := Some (js ''No matches found for the provided regular expression.'')\<rparr>,
                        Return)))
      else if extractionMethod st = UserQuestions \<and> blank (questionList st) then
        (st\<lparr>error := Some (js ''Please enter a list of questions for the AI to answer.'')\<rparr>, Return)
      else (st, Continue (inputText st)))\<close>

text \<open>
  \<open>handleGenerate\<close> up to the call of the generator: the state after the synchronous
  part, and whether generation starts (and on which text).  \<open>online\<close> is
  \<open>navigator.onLine\<close>.
\<close>

definition prepareGenerate :: "regexHost \<Rightarrow> bool \<Rightarrow> app \<Rightarrow> app \<times> continuation" where
  \<open>prepareGenerate H online st =
     (if \<not> online then
        (st\<lparr>error := Some (
           js ''You appear to be offline. An internet connection is required to generate '' @
           js ''flashcards.'')\<rparr>, Return)
      else if blank (inputText st) then
        (st\<lparr>error := Some (js ''Please enter some text to generate flashcards.'')\<rparr>, Return)
      else
        (case extractInput H (st\<lparr>error := None\<rparr>) of
           (st', Return) \<Rightarrow> (st', Return)
         | (st', Continue processedInput) \<Rightarrow>
             if blank processedInput then
               (st'\<lparr>error := Some (js ''The text after applying the extraction method is empty.'')\<rparr>,
                Return)
             else (st'\<lparr>isLoading := True, outputText := []\<rparr>, Continue processedInput)))\<close>

text \<open>
  The whole handler: each yielded chunk is appended to \<open>outputText\<close>; an error thrown
  by the generator sets the friendly message; \<open>finally\<close> clears \<open>isLoading\<close>.
\<close>

definition handleGenerate :: "regexHost \<Rightarrow> provider \<Rightarrow> bool \<Rightarrow> app \<Rightarrow> app" where
  "handleGenerate H ai online st =
     (case prepareGenerate H online st of
        (st', Return) \<Rightarrow> st'
      | (st', Continue processedInput) \<Rightarrow>
          (case generateFlashcardsStream ai processedInput st' of
             (chunks, err) \<Rightarrow>
               (let st1 = st'\<lparr>outputText := foldl (\<lambda>prev chunk. prev @ chunk) (outputText st') chunks\<rparr>;
                    st2 = (case err of
                             None \<Rightarrow> st1
                           | Some (JsError m) \<Rightarrow> st1\<lparr>error := Some (getFriendlyErrorMessage m)\<rparr>
                           | Some NonError \<Rightarrow>
                               st1\<lparr>error := Some (getFriendlyErrorMessage (js ''An unknown error occurred.''))\<rparr>)
                in st2\<lparr>isLoading := False\<rparr>)))"

section \<open>components/OutputPanel.tsx: validation of the output\<close>

datatype Status = Idle | Valid | Invalid | Warning

record ValidationState =
  status :: Status
  message :: jsstring

text \<open>
  The body of the branch \<open>justFinishedLoading && outputText\<close>.  \<open>JSON.parse\<close> belongs
  to the runtime: \<open>jsonParses t\<close> tells whether \<open>JSON.parse(t)\<close> returns (rather than
  throws).
\<close>

definition validateOutput :: "(jsstring \<Rightarrow> bool) \<Rightarrow> jsstring \<Rightarrow> OutputFormat \<Rightarrow> ValidationState" where
  \<open>validateOutput jsonParses outputText' outputFormat' =
     (let result = \<lparr> status = Valid, message = js ''Format appears valid.'' \<rparr>
      in case outputFormat' of
           Json \<Rightarrow>
             if jsonParses (trim outputText')
             then \<lparr> status = Valid, message = js ''JSON format is valid.'' \<rparr>
             else \<lparr> status = Invalid,
                    message = js ''Invalid JSON detected. The file may be corrupted or incomplete.'' \<rparr>
         | Csv \<Rightarrow>
             (let csvLines = filter (\<lambda>line. \<not> blank line) (js_split (trim outputText') (js ''\<newline>''))
              in if length csvLines > 0 \<and>
                    list_ex (\<lambda>line. \<not> startsWith line (js ''"'') \<or> \<not> endsWith line (js ''"'')
                                      \<or> length (js_split line (js ''","'')) \<noteq> 2) csvLines
                 then \<lparr> status = Warning,
                        message = js ''Potential CSV formatting issues found. Check for proper '' @
                                  js ''quoting and delimiters.'' \<rparr>
                 else result)
         | Tsv \<Rightarrow>
             (let tsvLines = filter (\<lambda>line. \<not> blank line) (js_split (trim outputText') (js ''\<newline>''))
              in if length tsvLines > 0 \<and>
                    list_ex (\<lambda>line. length (js_split line [0x09]) \<noteq> 2) tsvLines
                 then \<lparr> status = Warning,
                        message = js ''Potential TSV formatting issues found. Some rows may not '' @
                                  js ''have exactly two columns.'' \<rparr>
                 else result))\<close>

text \<open>
  The validation effect.  The panel keeps the verdict (\<open>useState\<close>) and the previous
  value of \<open>isLoading\<close> (\<open>useRef\<close>); its props \<open>outputText\<close>, \<open>outputFormat\<close> and
  \<open>isLoading\<close> are the fields of the application state it is rendered with.  The effect
  runs after a render in which one of the three changed.  The result names the branch
  that ran.
\<close>

record panel =
  validation :: ValidationState
  prevIsLoadingRef :: bool

datatype branch = Validated | ResetToIdle | Unchanged

definition validationEffect :: "(jsstring \<Rightarrow> bool) \<Rightarrow> app \<Rightarrow> panel \<Rightarrow> branch \<times> panel" where
  "validationEffect jsonParses props p =
     (let justFinishedLoading = (prevIsLoadingRef p = True \<and> isLoading props = False)
      in if justFinishedLoading \<and> outputText props \<noteq> [] then
           (Validated,
            p\<lparr>validation := validateOutput jsonParses (outputText props) (outputFormat props),
              prevIsLoadingRef := isLoading props\<rparr>)
         else if outputText props = [] \<or> isLoading props then
           (ResetToIdle,
            p\<lparr>validation := \<lparr> status = Idle, message = [] \<rparr>, prevIsLoadingRef := isLoading props\<rparr>)
         else (Unchanged, p\<lparr>prevIsLoadingRef := isLoading props\<rparr>))"

text \<open>
  The effect over a sequence of renders, starting from panel \<open>p\<close>: for each render, the
  branch taken and the panel after it.
\<close>

fun runEffects :: "(jsstring \<Rightarrow> bool) \<Rightarrow> app list \<Rightarrow> panel \<Rightarrow> (branch \<times> panel) list" where
  "runEffects jsonParses [] p = []"
| "runEffects jsonParses (props # rest) p =
     (case validationEffect jsonParses props p of
        (b, p') \<Rightarrow> (b, p') # runEffects jsonParses rest p')"

section \<open>components/InputPanel.tsx: the highlighted preview\<close>

text \<open>
  \<open>[...new Set(flags + 'dg')].join('')\<close>: the string is iterated by code points (a
  surrogate pair is one element), and a set keeps the first occurrence of each.
\<close>

fun codePoints :: "jsstring \<Rightarrow> jsstring list" where
  "codePoints [] = []"
| "codePoints [c] = [[c]]"
| "codePoints (c # d # cs) =
     (if 0xD800 \<le> c \<and> c \<le> 0xDBFF \<and> 0xDC00 \<le> d \<and> d \<le> 0xDFFF
      then [c, d] # codePoints cs
      else [c] # codePoints (d # cs))"

fun firstOccurrences :: "'a list \<Rightarrow> 'a list \<Rightarrow> 'a list" where
  "firstOccurrences seen [] = []"
| "firstOccurrences seen (x # xs) =
     (if x \<in> set seen then firstOccurrences seen xs else x # firstOccurrences (x # seen) xs)"

definition previewFlags :: "jsstring \<Rightarrow> jsstring" where
  "previewFlags flags = concat (firstOccurrences [] (codePoints (flags @ js ''dg'')))"

text \<open>\<open>s.substring(a, b)\<close> clamps both indices to the length and swaps them if needed.\<close>

definition substring :: "jsstring \<Rightarrow> nat \<Rightarrow> nat \<Rightarrow> jsstring" where
  "substring s a b =
     (let a' = min a (length s); b' = min b (length s);
          lo = min a' b'; hi = max a' b'
      in take (hi - lo) (drop lo s))"

text \<open>\<open>s.indexOf(p, from)\<close>; \<open>None\<close> stands for \<open>-1\<close>.\<close>

fun scanFor :: "jsstring \<Rightarrow> nat \<Rightarrow> jsstring \<Rightarrow> nat option" where
  "scanFor p k [] = (if p = [] then Some k else None)"
| "scanFor p k (c # cs) = (if startsWith (c # cs) p then Some k else scanFor p (Suc k) cs)"

definition indexOf :: "jsstring \<Rightarrow> jsstring \<Rightarrow> nat \<Rightarrow> nat option" where
  "indexOf s p from = (let k = min from (length s) in scanFor p k (drop k s))"

text \<open>
  An element of \<open>parts\<close>: a plain string, or the highlighting \<open>span\<close> with its key and
  its text.
\<close>

datatype part = Plain jsstring | Span nat jsstring

fun partText :: "part \<Rightarrow> jsstring" where
  "partText (Plain s) = s"
| "partText (Span i s) = s"

text \<open>
  The span chosen for a match: \<open>match.indices[1]\<close> when the array has more than one
  entry and that entry is defined, else \<open>match.indices?.[0]\<close>.
\<close>

definition chosenIndices :: "jsmatch \<Rightarrow> (nat \<times> nat) option" where
  "chosenIndices m =
     (case indices m of
        None \<Rightarrow> None
      | Some ixs \<Rightarrow>
          if length ixs > 1 \<and> ixs ! 1 \<noteq> None then ixs ! 1
          else if ixs = [] then None else ixs ! 0)"

text \<open>The body of \<open>matches.forEach\<close>, on the pair \<open>(lastIndex, parts)\<close>.\<close>

definition highlightMatch :: "jsstring \<Rightarrow> nat \<times> part list \<Rightarrow> nat \<times> jsmatch \<Rightarrow> nat \<times> part list" where
  "highlightMatch text acc im =
     (case acc of (lastIndex, parts) \<Rightarrow> case im of (i, m) \<Rightarrow>
        (case chosenIndices m of
           None \<Rightarrow>
             (let fullMatch = whole m;
                  textToHighlight = firstGroupOrWhole m
              in case indexOf text textToHighlight (matchIndex m) of
                   None \<Rightarrow> (lastIndex, parts)
                 | Some start \<Rightarrow>
                     (let end = start + length textToHighlight;
                          parts1 = (if start > lastIndex
                                    then parts @ [Plain (substring text lastIndex start)] else parts)
                      in (end, parts1 @ [Span i (substring text start end)])))
         | Some (start, end) \<Rightarrow>
             (let parts1 = (if start > lastIndex
                            then parts @ [Plain (substring text lastIndex start)] else parts)
              in (end, parts1 @ [Span i (substring text start end)]))))"

record preview =
  highlightedContent :: "part list"
  matchCount :: nat
  regexError :: "jsstring option"

text \<open>
  The memoised computation, on the debounced text, pattern and flags.  A fragment
  holding only the text is \<open>[Plain text]\<close>.
\<close>

definition highlight :: "regexHost \<Rightarrow> ExtractionMethod \<Rightarrow> jsstring \<Rightarrow> jsstring \<Rightarrow> jsstring \<Rightarrow> preview" where
  "highlight H method text pattern flags =
     (if method \<noteq> Regex \<or> text = [] \<or> blank pattern then
        \<lparr> highlightedContent = [Plain text], matchCount = 0, regexError = None \<rparr>
      else
        (case newRegExp H pattern (previewFlags flags) of
           Inl e \<Rightarrow>
             \<lparr> highlightedContent = [Plain text], matchCount = 0,
               regexError = Some (case e of JsError m \<Rightarrow> m | NonError \<Rightarrow> js ''Invalid Regular Expression'') \<rparr>
         | Inr regex \<Rightarrow>
             (case matchAll H text regex of
                Inl e \<Rightarrow>
                  \<lparr> highlightedContent = [Plain text], matchCount = 0,
                    regexError = Some (case e of JsError m \<Rightarrow> m | NonError \<Rightarrow> js ''Invalid Regular Expression'') \<rparr>
              | Inr matches \<Rightarrow>
                  if length matches = 0 then
                    \<lparr> highlightedContent = [Plain text], matchCount = 0,
                      regexError = Some (js ''No matches found.'') \<rparr>
                  else
                    (case foldl (highlightMatch text) (0, []) (enumerate 0 matches) of
                       (lastIndex, parts) \<Rightarrow>
                         \<lparr> highlightedContent =
                             (if lastIndex < length text
                              then parts @ [Plain (substring text lastIndex (length text))]
                              else parts),
                           matchCount = length matches, regexError = None \<rparr>))))"

section \<open>Vocabulary of the properties\<close>

text \<open>\<open>p\<close> occurs in \<open>s\<close> as a contiguous run of code units (case-sensitive).\<close>

definition occursIn :: "jsstring \<Rightarrow> jsstring \<Rightarrow> bool" where
  "occursIn p s = (\<exists>u v. s = u @ p @ v)"




text \<open>
  The lines the validator looks at: the trimmed output cut at line feeds, without the
  lines that are white space only.  The shape it expects of a CSV line.
\<close>

definition nonBlankLines :: "jsstring \<Rightarrow> jsstring list" where
  "nonBlankLines out = filter (\<lambda>line. \<not> blank line) (js_split (trim out) (js ''\<newline>''))"

definition csvShape :: "jsstring \<Rightarrow> bool" where
  \<open>csvShape line =
     (startsWith line (js ''"'') \<and> endsWith line (js ''"'')
      \<and> length (js_split line (js ''","'')) = 2)\<close>

text \<open>The verdict before and during a generation.\<close>

definition idle :: ValidationState where
  "idle = \<lparr> status = Idle, message = [] \<rparr>"

text \<open>
  The spans chosen for the matches are in order: each starts at or after \<open>lastIndex\<close>,
  the end of the one before, does not end before it starts, and the last ends within
  the text of length \<open>n\<close>.
\<close>

fun orderedSpans :: "nat \<Rightarrow> jsmatch list \<Rightarrow> nat \<Rightarrow> bool" where
  "orderedSpans lastIndex [] n = (lastIndex \<le> n)"
| "orderedSpans lastIndex (m # ms) n =
     (case chosenIndices m of
        None \<Rightarrow> False
      | Some (start, end) \<Rightarrow> lastIndex \<le> start \<and> start \<le> end \<and> orderedSpans end ms n)"

section \<open>Concrete inputs\<close>

text \<open>A provider whose stream fails with a quota message after one chunk.\<close>

definition quotaProvider :: provider where
  "quotaProvider = (\<lambda>request.
     Reply [Some (js ''front'')] (Some (JsError (js ''got status: 429 RESOURCE_EXHAUSTED''))))"

definition sampleOptions :: GenerationOptions where
  "sampleOptions = \<lparr> model = js ''gemini-2.5-flash'', outputFormat = Tsv, cardType = Basic,
     numberOfCards = [], extractionMethod = NoExtraction, questionList = [] \<rparr>"

text \<open>
  A state of the application with the given extraction method, input text, pattern and
  flags, the default options, and the output of an earlier generation on display.
\<close>

definition session :: "ExtractionMethod \<Rightarrow> jsstring \<Rightarrow> jsstring \<Rightarrow> jsstring \<Rightarrow> app" where
  "session method text pattern flags =
     \<lparr> model = js ''gemini-2.5-flash'', outputFormat = Tsv, cardType = Basic,
       numberOfCards = [], extractionMethod = method, questionList = [],
       inputText = text, outputText = js ''earlier output'', isLoading = False, error = None,
       regexPattern = pattern, regexFlags = flags \<rparr>"

text \<open>
  The preset "Text in **bold**": the pattern \<^verbatim>\<open>\*\*(.*?)\*\*\<close>, and what the engine reports
  for it on the text \<^verbatim>\<open>**foo** and **bar**\<close>: two matches, at offsets 0 and 12, each with
  its first group; the index pairs are present under the \<open>d\<close> flag.
\<close>

definition boldPattern :: jsstring where
  "boldPattern = [0x5C, 0x2A, 0x5C, 0x2A] @ js ''(.*?)'' @ [0x5C, 0x2A, 0x5C, 0x2A]"

definition boldText :: jsstring where
  "boldText = js ''**foo** and **bar**''"

definition boldHost :: regexHost where
  "boldHost = \<lparr>
     rx_error = (\<lambda>pattern flags. None),
     rx_scan = (\<lambda>pattern flags text.
       if pattern = boldPattern \<and> text = boldText
       then [\<lparr> matchIndex = 0, whole = js ''**foo**'', captures = [Some (js ''foo'')],
               indices = (if 0x64 \<in> set flags then Some [Some (0, 7), Some (2, 5)] else None) \<rparr>,
             \<lparr> matchIndex = 12, whole = js ''**bar**'', captures = [Some (js ''bar'')],
               indices = (if 0x64 \<in> set flags then Some [Some (12, 19), Some (14, 17)] else None) \<rparr>]
       else []) \<rparr>"

text \<open>
  An engine that compiles what it is given and reports no match (as any engine does for
  the pattern of two spaces on the text \<open>abc\<close>), and one that refuses every pattern.
\<close>

definition quietHost :: regexHost where
  "quietHost = \<lparr> rx_error = (\<lambda>pattern flags. None), rx_scan = (\<lambda>pattern flags text. []) \<rparr>"

definition refusingHost :: regexHost where
  "refusingHost = \<lparr> rx_error = (\<lambda>pattern flags. Some (js ''Invalid regular expression'')),
                     rx_scan = (\<lambda>pattern flags text. []) \<rparr>"


text \<open>
  A pattern whose first group is captured inside a lookahead, \<^verbatim>\<open>(?=(aa))a\<close>, and what the
  engine reports for it on the text \<open>aaa\<close>: the matches \<open>a\<close> at offsets 0 and 1, whose
  first groups \<open>aa\<close> span the offsets 0 to 2 and 1 to 3.
\<close>

definition lookaheadPattern :: jsstring where
  "lookaheadPattern = js ''(?=(aa))a''"

definition lookaheadHost :: regexHost where
  "lookaheadHost = \<lparr>
     rx_error = (\<lambda>pattern flags. None),
     rx_scan = (\<lambda>pattern flags text.
       if pattern = lookaheadPattern \<and> text = js ''aaa''
       then [\<lparr> matchIndex = 0, whole = js ''a'', captures = [Some (js ''aa'')],
               indices = (if 0x64 \<in> set flags then Some [Some (0, 1), Some (0, 2)] else None) \<rparr>,
             \<lparr> matchIndex = 1, whole = js ''a'', captures = [Some (js ''aa'')],
               indices = (if 0x64 \<in> set flags then Some [Some (1, 2), Some (1, 3)] else None) \<rparr>]
       else []) \<rparr>"

text \<open>The output of scenario D: a well-formed CSV line and a line with one field.\<close>

definition csvScenario :: jsstring where
  \<open>csvScenario = js ''"a","b"\<newline>"c"''\<close>

text \<open>
  The renders of one generation of two cards in TSV: the output cleared, one chunk
  appended, streaming finished; then the user switches the format to CSV.
\<close>

definition renderLoading :: "jsstring \<Rightarrow> app" where
  "renderLoading out = (session NoExtraction (js ''notes'') [] (js ''g''))\<lparr>outputText := out, isLoading := True\<rparr>"

definition renderFinished :: "jsstring \<Rightarrow> OutputFormat \<Rightarrow> app" where
  "renderFinished out fmt =
     (session NoExtraction (js ''notes'') [] (js ''g''))\<lparr>outputText := out, outputFormat := fmt\<rparr>"

section \<open>Strings: basic facts\<close>

lemmas js_eval = js_def blank_def trim_def trimStart_def trimEnd_def isWhite_def
  isLineTerminator_def startsWith_def

lemma startsWith_iff: "startsWith s p \<longleftrightarrow> (\<exists>v. s = p @ v)"
  unfolding startsWith_def
  by (metis append_eq_conv_conj)

lemma str_includes_iff: "str_includes s p \<longleftrightarrow> occursIn p s"
proof (induction s)
  case Nil
  show ?case by (auto simp: occursIn_def)
next
  case (Cons c cs)
  show ?case
  proof
    assume "str_includes (c # cs) p"
    then consider "startsWith (c # cs) p" | "str_includes cs p" by auto
    then show "occursIn p (c # cs)"
    proof cases
      case 1
      then obtain v where "c # cs = p @ v" by (auto simp: startsWith_iff)
      then have "c # cs = [] @ p @ v" by simp
      then show ?thesis unfolding occursIn_def by blast
    next
      case 2
      with Cons.IH obtain u v where "cs = u @ p @ v" by (auto simp: occursIn_def)
      then have "c # cs = (c # u) @ p @ v" by simp
      then show ?thesis unfolding occursIn_def by blast
    qed
  next
    assume "occursIn p (c # cs)"
    then obtain u v where uv: "c # cs = u @ p @ v" by (auto simp: occursIn_def)
    show "str_includes (c # cs) p"
    proof (cases u)
      case Nil
      with uv have "startsWith (c # cs) p" by (auto simp: startsWith_iff)
      then show ?thesis by simp
    next
      case (Cons a u')
      with uv have "cs = u' @ p @ v" by simp
      then have "occursIn p cs" unfolding occursIn_def by blast
      with Cons.IH show ?thesis by simp
    qed
  qed
qed




section \<open>The generation client: failures and configuration\<close>

lemma codes_distinct:
  "js ''API_KEY_INVALID'' \<noteq> js ''RATE_LIMIT_EXCEEDED''"
  "js ''API_KEY_INVALID'' \<noteq> js ''CONTENT_BLOCKED''"
  "js ''API_KEY_INVALID'' \<noteq> js ''An unexpected error occurred.''"
  "js ''RATE_LIMIT_EXCEEDED'' \<noteq> js ''CONTENT_BLOCKED''"
  "js ''RATE_LIMIT_EXCEEDED'' \<noteq> js ''An unexpected error occurred.''"
  "js ''CONTENT_BLOCKED'' \<noteq> js ''An unexpected error occurred.''"
  by (simp_all add: js_def)

text \<open>
  Claim C4.  Whenever the provider fails, with whatever value \<open>raw\<close>, the generator
  throws a new error whose message is one of four fixed strings, chosen by the rules of
  the claim taken in the order in which it lists them: \<open>API_KEY_INVALID\<close> exactly when
  the failure is an error whose message contains "API key not valid"; otherwise
  \<open>RATE_LIMIT_EXCEEDED\<close> exactly when the message contains "RESOURCE_EXHAUSTED" or
  "rate limit"; otherwise \<open>CONTENT_BLOCKED\<close> exactly when it contains both "candidate"
  and "was blocked"; in every other case (also when the thrown value is not an error
  object) the generic message.  Containment is that of code units, so case-sensitive.
  The thrown error depends on the raw failure only through this choice.
\<close>

theorem failure_is_mapped:
  assumes "failure (ai (streamRequest userInput opts)) = Some raw"
  shows "\<exists>code. snd (generateFlashcardsStream ai userInput opts) = Some (JsError code)
     \<and> code \<in> {js ''API_KEY_INVALID'', js ''RATE_LIMIT_EXCEEDED'', js ''CONTENT_BLOCKED'',
               js ''An unexpected error occurred.''}
     \<and> (code = js ''API_KEY_INVALID'' \<longleftrightarrow>
          (\<exists>m. raw = JsError m \<and> occursIn (js ''API key not valid'') m))
     \<and> (code = js ''RATE_LIMIT_EXCEEDED'' \<longleftrightarrow>
          (\<exists>m. raw = JsError m \<and> \<not> occursIn (js ''API key not valid'') m
             \<and> (occursIn (js ''RESOURCE_EXHAUSTED'') m \<or> occursIn (js ''rate limit'') m)))
     \<and> (code = js ''CONTENT_BLOCKED'' \<longleftrightarrow>
          (\<exists>m. raw = JsError m \<and> \<not> occursIn (js ''API key not valid'') m
             \<and> \<not> occursIn (js ''RESOURCE_EXHAUSTED'') m \<and> \<not> occursIn (js ''rate limit'') m
             \<and> occursIn (js ''candidate'') m \<and> occursIn (js ''was blocked'') m))"
proof -
  have thrown: "snd (generateFlashcardsStream ai userInput opts) = Some (JsError (mapFailure raw))"
    using assms by (simp add: generateFlashcardsStream_def Let_def)
  show ?thesis
  proof (cases raw)
    case NonError
    then show ?thesis using thrown codes_distinct by (simp add: mapFailure_def)
  next
    case (JsError m)
    then show ?thesis using thrown codes_distinct
      by (simp add: mapFailure_def str_includes_iff)
  qed
qed

theorem failure_is_mapped_witness:
  "failure (quotaProvider (streamRequest (js ''notes'') sampleOptions))
     = Some (JsError (js ''got status: 429 RESOURCE_EXHAUSTED''))
   \<and> snd (generateFlashcardsStream quotaProvider (js ''notes'') sampleOptions)
     = Some (JsError (js ''RATE_LIMIT_EXCEEDED''))"
proof -
  let ?raw = "JsError (js ''got status: 429 RESOURCE_EXHAUSTED'')"
  have f: "failure (quotaProvider (streamRequest (js ''notes'') sampleOptions)) = Some ?raw"
    by (simp add: quotaProvider_def)
  have inc: "str_includes (js ''got status: 429 RESOURCE_EXHAUSTED'') (js ''RESOURCE_EXHAUSTED'')"
    by (simp add: js_def startsWith_def)
  have exc: "\<not> str_includes (js ''got status: 429 RESOURCE_EXHAUSTED'') (js ''API key not valid'')"
    by (simp add: js_def startsWith_def)
  from failure_is_mapped [where ai = quotaProvider and userInput = "js ''notes''"
      and opts = sampleOptions and raw = ?raw] f obtain code where
    c: "snd (generateFlashcardsStream quotaProvider (js ''notes'') sampleOptions) = Some (JsError code)"
    and r: "code = js ''RATE_LIMIT_EXCEEDED'' \<longleftrightarrow>
          (\<exists>m. ?raw = JsError m \<and> \<not> occursIn (js ''API key not valid'') m
             \<and> (occursIn (js ''RESOURCE_EXHAUSTED'') m \<or> occursIn (js ''rate limit'') m))"
    by blast
  from r inc exc have "code = js ''RATE_LIMIT_EXCEEDED''"
    by (simp add: str_includes_iff)
  with c f show ?thesis by simp
qed

text \<open>
  Claim C8, as the code has it.  The configuration passed to the provider holds the
  system instruction, and a thinking budget (of 32768) exactly when the model
  identifier is the string \<open>gemini-2.5-pro\<close>; for every other identifier it holds the
  system instruction only.
\<close>

theorem thinking_budget_only_for_gemini_2_5_pro:
  "config (streamRequest userInput opts)
     = \<lparr> configSystemInstruction = systemInstruction (createPromptParts userInput opts),
         thinkingConfig = (if model opts = js ''gemini-2.5-pro''
                           then Some \<lparr> thinkingBudget = 32768 \<rparr> else None) \<rparr>"
  by (simp add: streamRequest_def Let_def)

theorem thinking_budget_witness:
  "thinkingConfig (config (streamRequest (js ''notes'')
       (sampleOptions\<lparr>model := js ''gemini-2.5-pro''\<rparr>))) = Some \<lparr> thinkingBudget = 32768 \<rparr>
   \<and> thinkingConfig (config (streamRequest (js ''notes'') sampleOptions)) = None"
  using thinking_budget_only_for_gemini_2_5_pro
          [of "js ''notes''" "sampleOptions\<lparr>model := js ''gemini-2.5-pro''\<rparr>"]
        thinking_budget_only_for_gemini_2_5_pro [of "js ''notes''" sampleOptions]
  by (simp add: sampleOptions_def js_def)

text \<open>
  The claim as stated fails: the identifier \<open>gemini-1.5-pro\<close> ends in \<open>-pro\<close>, and the
  configuration built for it has no thinking budget.
\<close>

theorem thinking_budget_counterexample:
  "endsWith (js ''gemini-1.5-pro'') (js ''-pro'')
   \<and> thinkingConfig (config (streamRequest (js ''notes'')
        (sampleOptions\<lparr>model := js ''gemini-1.5-pro''\<rparr>))) = None"
  by (simp add: streamRequest_def Let_def endsWith_def js_def)

section \<open>The split of the auto mode\<close>








section \<open>handleGenerate: extraction\<close>



text \<open>
  Regular-expression mode with a usable pattern and the \<open>g\<close> flag: the step goes on with
  the first group of each match (the whole match where the first group is undefined),
  in the order of the matches, joined by a blank line.
\<close>

lemma regex_extraction_joins_matches:
  assumes "extractionMethod st = Regex" "\<not> blank (regexPattern st)"
    and "rx_error H (regexPattern st) (regexFlags st) = None"
    and "0x67 \<in> set (regexFlags st)"
    and "rx_scan H (regexPattern st) (regexFlags st) (inputText st) = ms" "ms \<noteq> []"
  shows "extractInput H st
       = (st, Continue (js_join (js ''\<newline>\<newline>'') (map firstGroupOrWhole ms)))"
  using assms by (simp add: extractInput_def newRegExp_def matchAll_def)

lemma bold_scenario:
  "prepareGenerate boldHost True (session Regex boldText boldPattern (js ''g''))
     = ((session Regex boldText boldPattern (js ''g''))\<lparr>isLoading := True, outputText := []\<rparr>,
        Continue (js ''foo\<newline>\<newline>bar''))"
  by (simp add: prepareGenerate_def extractInput_def newRegExp_def matchAll_def boldHost_def
      session_def boldText_def boldPattern_def firstGroupOrWhole_def js_eval)

text \<open>
  Claim C1 at the input where the code departs from it.  When the flags lack \<open>g\<close>,
  \<open>matchAll\<close> throws, the \<open>catch\<close> reports an invalid expression and the handler
  returns: no text is extracted, whatever the engine would have matched.
\<close>

theorem regex_without_global_flag_rejected:
  assumes "online" "\<not> blank (inputText st)" "extractionMethod st = Regex"
    and "\<not> blank (regexPattern st)" "0x67 \<notin> set (regexFlags st)"
  shows "prepareGenerate H online st
       = (st\<lparr>error := Some (js ''Invalid regular expression pattern or flags.'')\<rparr>, Return)"
  using assms
  by (simp add: prepareGenerate_def extractInput_def newRegExp_def matchAll_def split: option.split)

theorem regex_without_global_flag_rejected_witness:
  "rx_error boldHost boldPattern (js ''i'') = None
   \<and> length (rx_scan boldHost boldPattern (js ''gi'') boldText) = 2
   \<and> prepareGenerate boldHost True (session Regex boldText boldPattern (js ''i''))
     = ((session Regex boldText boldPattern (js ''i''))
          \<lparr>error := Some (js ''Invalid regular expression pattern or flags.'')\<rparr>, Return)"
proof -
  have "\<not> blank boldText" "\<not> blank boldPattern" "0x67 \<notin> set (js ''i'')"
    by (simp_all add: boldText_def boldPattern_def js_eval)
  then show ?thesis
    using regex_without_global_flag_rejected
      [of True "session Regex boldText boldPattern (js ''i'')" boldHost]
    by (simp add: session_def boldHost_def)
qed

text \<open>
  Claim C5, as the code has it.  In regular-expression mode with a pattern that is not
  empty or white space only: if the pattern does not compile under the flags, or it
  compiles and the text has no match, the handler sets a diagnostic and returns; the
  provider is not called, and the state is otherwise unchanged, the displayed output in
  particular.  In every run of the handler the output is cleared only together with the
  start of generation.
\<close>

theorem regex_failure_rejects:
  assumes "extractionMethod st = Regex" "\<not> blank (regexPattern st)"
    and "rx_error H (regexPattern st) (regexFlags st) \<noteq> None
         \<or> rx_scan H (regexPattern st) (regexFlags st) (inputText st) = []"
  shows "(\<exists>msg. prepareGenerate H online st = (st\<lparr>error := Some msg\<rparr>, Return)
              \<and> handleGenerate H ai online st = st\<lparr>error := Some msg\<rparr>)
       \<and> (case prepareGenerate H online' st' of
            (st'', Return) \<Rightarrow> outputText st'' = outputText st' \<and> isLoading st'' = isLoading st'
          | (st'', Continue t) \<Rightarrow> outputText st'' = [] \<and> isLoading st'')"
proof
  show "\<exists>msg. prepareGenerate H online st = (st\<lparr>error := Some msg\<rparr>, Return)
              \<and> handleGenerate H ai online st = st\<lparr>error := Some msg\<rparr>"
    using assms
    by (auto simp: handleGenerate_def prepareGenerate_def extractInput_def newRegExp_def
        matchAll_def split: option.split)
  show "case prepareGenerate H online' st' of
            (st'', Return) \<Rightarrow> outputText st'' = outputText st' \<and> isLoading st'' = isLoading st'
          | (st'', Continue t) \<Rightarrow> outputText st'' = [] \<and> isLoading st''"
    by (auto simp: prepareGenerate_def extractInput_def newRegExp_def matchAll_def Let_def
        split: option.split sum.split continuation.split prod.split)
qed

theorem regex_failure_rejects_witness:
  "rx_scan quietHost (js ''xyz'') (js ''g'') (js ''abc'') = []
   \<and> handleGenerate quietHost quotaProvider True (session Regex (js ''abc'') (js ''xyz'') (js ''g''))
     = (session Regex (js ''abc'') (js ''xyz'') (js ''g''))
         \<lparr>error := Some (js ''No matches found for the provided regular expression.'')\<rparr>
   \<and> rx_error refusingHost (js ''('') (js ''g'') \<noteq> None
   \<and> handleGenerate refusingHost quotaProvider True (session Regex (js ''abc'') (js ''('') (js ''g''))
     = (session Regex (js ''abc'') (js ''('') (js ''g''))
         \<lparr>error := Some (js ''Invalid regular expression pattern or flags.'')\<rparr>"
proof -
  have nb: "\<not> blank (js ''xyz'')" "\<not> blank (js ''('')" "\<not> blank (js ''abc'')"
    by (simp_all add: js_eval)
  have p1: "prepareGenerate quietHost True (session Regex (js ''abc'') (js ''xyz'') (js ''g''))
      = ((session Regex (js ''abc'') (js ''xyz'') (js ''g''))
           \<lparr>error := Some (js ''No matches found for the provided regular expression.'')\<rparr>, Return)"
    using nb
    by (simp add: prepareGenerate_def extractInput_def newRegExp_def matchAll_def quietHost_def
        session_def js_def)
  have p2: "prepareGenerate refusingHost True (session Regex (js ''abc'') (js ''('') (js ''g''))
      = ((session Regex (js ''abc'') (js ''('') (js ''g''))
           \<lparr>error := Some (js ''Invalid regular expression pattern or flags.'')\<rparr>, Return)"
    using nb
    by (simp add: prepareGenerate_def extractInput_def newRegExp_def refusingHost_def session_def)
  from regex_failure_rejects
    [where st = "session Regex (js ''abc'') (js ''xyz'') (js ''g'')" and H = quietHost
       and online = True and ai = quotaProvider] nb
  obtain m1 where
    "prepareGenerate quietHost True (session Regex (js ''abc'') (js ''xyz'') (js ''g''))
       = ((session Regex (js ''abc'') (js ''xyz'') (js ''g''))\<lparr>error := Some m1\<rparr>, Return)"
    "handleGenerate quietHost quotaProvider True (session Regex (js ''abc'') (js ''xyz'') (js ''g''))
       = (session Regex (js ''abc'') (js ''xyz'') (js ''g''))\<lparr>error := Some m1\<rparr>"
    by (auto simp: session_def quietHost_def)
  with p1 have h1:
    "handleGenerate quietHost quotaProvider True (session Regex (js ''abc'') (js ''xyz'') (js ''g''))
       = (session Regex (js ''abc'') (js ''xyz'') (js ''g''))
           \<lparr>error := Some (js ''No matches found for the provided regular expression.'')\<rparr>"
    by simp
  from regex_failure_rejects
    [where st = "session Regex (js ''abc'') (js ''('') (js ''g'')" and H = refusingHost
       and online = True and ai = quotaProvider] nb
  obtain m2 where
    "prepareGenerate refusingHost True (session Regex (js ''abc'') (js ''('') (js ''g''))
       = ((session Regex (js ''abc'') (js ''('') (js ''g''))\<lparr>error := Some m2\<rparr>, Return)"
    "handleGenerate refusingHost quotaProvider True (session Regex (js ''abc'') (js ''('') (js ''g''))
       = (session Regex (js ''abc'') (js ''('') (js ''g''))\<lparr>error := Some m2\<rparr>"
    by (auto simp: session_def refusingHost_def)
  with p2 have h2:
    "handleGenerate refusingHost quotaProvider True (session Regex (js ''abc'') (js ''('') (js ''g''))
       = (session Regex (js ''abc'') (js ''('') (js ''g''))
           \<lparr>error := Some (js ''Invalid regular expression pattern or flags.'')\<rparr>"
    by simp
  from h1 h2 show ?thesis by (simp add: quietHost_def refusingHost_def)
qed

text \<open>
  The claim as stated fails for a pattern of white space: the pattern of two spaces
  compiles and has no match in \<open>abc\<close>, yet the handler does not reject the request: it
  clears the earlier output and starts generation on the raw text.
\<close>

theorem regex_failure_rejects_counterexample:
  "extractionMethod (session Regex (js ''abc'') (js ''  '') (js ''g'')) = Regex
   \<and> rx_error quietHost (js ''  '') (js ''g'') = None
   \<and> rx_scan quietHost (js ''  '') (js ''g'') (js ''abc'') = []
   \<and> outputText (session Regex (js ''abc'') (js ''  '') (js ''g'')) = js ''earlier output''
   \<and> prepareGenerate quietHost True (session Regex (js ''abc'') (js ''  '') (js ''g''))
     = ((session Regex (js ''abc'') (js ''  '') (js ''g''))\<lparr>isLoading := True, outputText := []\<rparr>,
        Continue (js ''abc''))"
  by (simp add: prepareGenerate_def extractInput_def session_def quietHost_def js_eval)

text \<open>
  Claim C10.  In regular-expression mode with an empty or white-space-only pattern, a
  request that passes the two entry checks (online, some input text) skips extraction:
  whatever the engine is (also one that refuses every pattern), the step neither
  consults it nor sets an error nor returns, and generation starts on the raw input
  text.
\<close>

theorem blank_pattern_skips_extraction:
  assumes "online" "\<not> blank (inputText st)" "extractionMethod st = Regex"
    and "blank (regexPattern st)"
  shows "extractInput H (st\<lparr>error := None\<rparr>) = (st\<lparr>error := None\<rparr>, Continue (inputText st))
       \<and> prepareGenerate H online st
         = (st\<lparr>error := None, isLoading := True, outputText := []\<rparr>, Continue (inputText st))"
  using assms by (simp add: prepareGenerate_def extractInput_def)

theorem blank_pattern_skips_extraction_witness:
  "blank (js '' '') \<and> blank []
   \<and> prepareGenerate refusingHost True (session Regex (js ''abc'') (js '' '') (js ''g''))
     = ((session Regex (js ''abc'') (js '' '') (js ''g''))\<lparr>isLoading := True, outputText := []\<rparr>,
        Continue (js ''abc''))
   \<and> prepareGenerate refusingHost True (session Regex (js ''abc'') [] (js ''g''))
     = ((session Regex (js ''abc'') [] (js ''g''))\<lparr>isLoading := True, outputText := []\<rparr>,
        Continue (js ''abc''))"
proof -
  have b: "blank (js '' '')" "blank []" "\<not> blank (js ''abc'')"
    by (simp_all add: js_eval)
  then show ?thesis
    using blank_pattern_skips_extraction
        [of True "session Regex (js ''abc'') (js '' '') (js ''g'')" refusingHost]
      blank_pattern_skips_extraction
        [of True "session Regex (js ''abc'') [] (js ''g'')" refusingHost]
    by (simp add: session_def)
qed

section \<open>The output validator\<close>

lemma split_go_nonempty: "split_go sep acc s \<noteq> []"
  by (induction sep acc s rule: split_go.induct) auto

lemma js_join_Cons: "ys \<noteq> [] \<Longrightarrow> js_join sep (x # ys) = x @ sep @ js_join sep ys"
  by (cases ys) auto

lemma join_split_go: "sep \<noteq> [] \<Longrightarrow> js_join sep (split_go sep acc s) = rev acc @ s"
proof (induction sep acc s rule: split_go.induct)
  case (1 sep acc)
  show ?case by simp
next
  case (2 sep acc c cs)
  show ?case
  proof (cases "startsWith (c # cs) sep")
    case True
    then have "c # cs = sep @ drop (length sep) (c # cs)"
      by (metis append_take_drop_id startsWith_def)
    with True 2 show ?thesis
      by (simp add: js_join_Cons split_go_nonempty)
  next
    case False
    with 2 show ?thesis by simp
  qed
qed

text \<open>
  What \<open>split\<close> means: the fields, joined by the separator, are the string again, and no
  field contains the separator.
\<close>

lemma join_split: "sep \<noteq> [] \<Longrightarrow> js_join sep (js_split s sep) = s"
  by (simp add: js_split_def join_split_go)

lemma split_go_fields:
  assumes "sep \<noteq> []"
    and "\<forall>i<length acc. \<not> startsWith (drop i (rev acc @ s)) sep"
  shows "\<forall>f\<in>set (split_go sep acc s). \<not> occursIn sep f"
  using assms
proof (induction sep acc s rule: split_go.induct)
  case (1 sep acc)
  have "\<not> occursIn sep (rev acc)"
  proof
    assume "occursIn sep (rev acc)"
    then obtain u v where uv: "rev acc = u @ sep @ v" by (auto simp: occursIn_def)
    then have "length u < length acc" using 1(1)
      by (metis length_rev length_append length_greater_0_conv less_add_same_cancel1 add_gr_0)
    moreover have "startsWith (drop (length u) (rev acc @ [])) sep"
      by (simp add: uv startsWith_iff)
    ultimately show False using 1(2) by blast
  qed
  then show ?case by simp
next
  case (2 sep acc c cs)
  show ?case
  proof (cases "startsWith (c # cs) sep")
    case True
    have "\<not> occursIn sep (rev acc)"
    proof
      assume "occursIn sep (rev acc)"
      then obtain u v where uv: "rev acc = u @ sep @ v" by (auto simp: occursIn_def)
      then have "length u < length acc" using 2(3)
        by (metis length_rev length_append length_greater_0_conv less_add_same_cancel1 add_gr_0)
      moreover have "startsWith (drop (length u) (rev acc @ c # cs)) sep"
        by (simp add: uv startsWith_iff)
      ultimately show False using 2(4) by blast
    qed
    moreover have "\<forall>f\<in>set (split_go sep [] (drop (length sep) (c # cs))). \<not> occursIn sep f"
      using 2(1) True 2(3) by simp
    ultimately show ?thesis using True 2(3) by simp
  next
    case False
    have "\<forall>i<length (c # acc). \<not> startsWith (drop i (rev (c # acc) @ cs)) sep"
    proof (intro allI impI)
      fix i assume "i < length (c # acc)"
      then consider "i < length acc" | "i = length acc" by fastforce
      then show "\<not> startsWith (drop i (rev (c # acc) @ cs)) sep"
      proof cases
        case 1 with 2(4) show ?thesis by simp
      next
        case 2 with False show ?thesis by simp
      qed
    qed
    with 2(2) False 2(3) show ?thesis by simp
  qed
qed

lemma split_fields_free: "sep \<noteq> [] \<Longrightarrow> \<forall>f\<in>set (js_split s sep). \<not> occursIn sep f"
  using split_go_fields[of sep "[]" s] by (simp add: js_split_def)

lemma nonempty_and_some: "(length xs > 0 \<and> list_ex P xs) = (\<exists>x\<in>set xs. P x)"
  by (cases xs) (auto simp: list_ex_iff)

text \<open>
  Claim C6.  For CSV the verdict is \<open>warning\<close> exactly when some non-blank line of the
  trimmed output fails the shape check (starts with a double quote, ends with a double
  quote, splits into exactly two fields on the delimiter quote-comma-quote), and
  \<open>valid\<close> otherwise; with no non-blank line it is \<open>valid\<close>.  The output of scenario D
  gets \<open>warning\<close>.
\<close>

theorem csv_verdict:
  \<open>status (validateOutput jsonParses out Csv)
     = (if \<exists>line\<in>set (nonBlankLines out). \<not> csvShape line then Warning else Valid)
   \<and> (nonBlankLines out = [] \<longrightarrow> status (validateOutput jsonParses out Csv) = Valid)
   \<and> status (validateOutput jsonParses csvScenario Csv) = Warning\<close>
proof (intro conjI impI)
  show g: "status (validateOutput jsonParses out Csv)
     = (if \<exists>line\<in>set (nonBlankLines out). \<not> csvShape line then Warning else Valid)" for out
    unfolding validateOutput_def nonBlankLines_def csvShape_def Let_def nonempty_and_some
    by auto
  show "status (validateOutput jsonParses out Csv) = Valid" if "nonBlankLines out = []"
    using that by (simp add: g)
  have l: \<open>nonBlankLines csvScenario = [js ''"a","b"'', js ''"c"'']\<close>
    by (simp add: nonBlankLines_def csvScenario_def js_split_def js_eval)
  have \<open>\<not> csvShape (js ''"c"'')\<close>
    by (simp add: csvShape_def js_split_def js_eval)
  with l show "status (validateOutput jsonParses csvScenario Csv) = Warning"
    by (simp add: g)
qed

theorem csv_verdict_witness:
  \<open>status (validateOutput (\<lambda>t. False) csvScenario Csv) = Warning
   \<and> nonBlankLines (js ''  "a","b"\<newline>\<newline>"c","d"\<newline>'') = [js ''"a","b"'', js ''"c","d"'']
   \<and> status (validateOutput (\<lambda>t. False) (js ''  "a","b"\<newline>\<newline>"c","d"\<newline>'') Csv) = Valid
   \<and> nonBlankLines (js '' \<newline> '') = []
   \<and> status (validateOutput (\<lambda>t. False) (js '' \<newline> '') Csv) = Valid\<close>
proof -
  have l1: \<open>nonBlankLines (js ''  "a","b"\<newline>\<newline>"c","d"\<newline>'') = [js ''"a","b"'', js ''"c","d"'']\<close>
    by (simp add: nonBlankLines_def js_split_def js_eval)
  have s1: \<open>csvShape (js ''"a","b"'')\<close> \<open>csvShape (js ''"c","d"'')\<close>
    by (simp_all add: csvShape_def js_split_def endsWith_def js_eval)
  have l2: "nonBlankLines (js '' \<newline> '') = []"
    by (simp add: nonBlankLines_def js_split_def js_eval)
  show ?thesis
    using csv_verdict [of "\<lambda>t. False" \<open>js ''  "a","b"\<newline>\<newline>"c","d"\<newline>''\<close>]
      csv_verdict [of "\<lambda>t. False" "js '' \<newline> ''"] l1 l2 s1
    by simp
qed

section \<open>The validation effect\<close>

lemma effect_loading:
  "isLoading r \<Longrightarrow>
   validationEffect jp r p = (ResetToIdle, \<lparr> validation = idle, prevIsLoadingRef = True \<rparr>)"
  by (simp add: validationEffect_def idle_def)

lemma run_loading:
  assumes "\<forall>r\<in>set ls. isLoading r"
  shows "runEffects jp ls p
       = map (\<lambda>r. (ResetToIdle, \<lparr> validation = idle, prevIsLoadingRef = True \<rparr>)) ls"
  using assms by (induction ls arbitrary: p) (simp_all add: effect_loading)

lemma run_append:
  "runEffects jp (xs @ ys) p
     = runEffects jp xs p
       @ runEffects jp ys (if xs = [] then p else snd (last (runEffects jp xs p)))"
proof (induction xs arbitrary: p)
  case Nil
  show ?case by simp
next
  case (Cons x xs)
  obtain b p' where e: "validationEffect jp x p = (b, p')" by (cases "validationEffect jp x p")
  show ?case
    using Cons.IH[of p'] by (cases xs) (simp_all add: e split: prod.split)
qed

lemma run_finished:
  assumes "\<forall>r\<in>set fs. \<not> isLoading r" "\<not> prevIsLoadingRef p"
  shows "map fst (runEffects jp fs p)
       = map (\<lambda>r. if outputText r = [] then ResetToIdle else Unchanged) fs"
  using assms
proof (induction fs arbitrary: p)
  case Nil
  show ?case by simp
next
  case (Cons r fs)
  obtain b p' where e: "validationEffect jp r p = (b, p')" by (cases "validationEffect jp r p")
  with Cons.prems have "b = (if outputText r = [] then ResetToIdle else Unchanged)"
    and "\<not> prevIsLoadingRef p'"
    by (auto simp: validationEffect_def split: if_splits)
  with Cons.IH[of p'] Cons.prems e show ?case by simp
qed

text \<open>
  Claim C7.  Take the renders of one generation: one or more with \<open>isLoading\<close> set (the
  output cleared, then growing), the render \<open>f\<close> in which \<open>isLoading\<close> has become
  false, and any later renders \<open>fs\<close> before the next generation.  From any panel, the
  effect resets the verdict to idle at every loading render; at \<open>f\<close> it validates the
  accumulated output if that is non-empty, and resets to idle if it is empty; at no later
  render does it validate again.  So the validator runs once, at the transition, and
  only on a non-empty output.  The verdict is idle after every render that is loading
  or shows an empty output.
\<close>

theorem validation_once_per_generation:
  assumes "ls \<noteq> []" "\<forall>r\<in>set ls. isLoading r"
    and "\<not> isLoading f" "\<forall>r\<in>set fs. \<not> isLoading r"
  shows "map fst (runEffects jp (ls @ f # fs) p)
           = replicate (length ls) ResetToIdle
             @ (if outputText f \<noteq> [] then Validated else ResetToIdle)
             # map (\<lambda>r. if outputText r = [] then ResetToIdle else Unchanged) fs
       \<and> validation (snd (runEffects jp (ls @ f # fs) p ! length ls))
           = (if outputText f \<noteq> [] then validateOutput jp (outputText f) (outputFormat f)
              else idle)
       \<and> (\<forall>r\<in>set ls. \<forall>q. validation (snd (validationEffect jp r q)) = idle)
       \<and> (\<forall>r q. outputText r = [] \<longrightarrow> validation (snd (validationEffect jp r q)) = idle)"
proof -
  let ?lp = "\<lparr> validation = idle, prevIsLoadingRef = True \<rparr>"
  have L: "runEffects jp ls p = map (\<lambda>r. (ResetToIdle, ?lp)) ls"
    using assms(2) by (rule run_loading)
  with assms(1) have last: "snd (last (runEffects jp ls p)) = ?lp"
    by (simp add: last_map)
  obtain b p' where e: "validationEffect jp f ?lp = (b, p')"
    by (cases "validationEffect jp f ?lp")
  with assms(3) have b: "b = (if outputText f \<noteq> [] then Validated else ResetToIdle)"
    and v: "validation p'
          = (if outputText f \<noteq> [] then validateOutput jp (outputText f) (outputFormat f)
             else idle)"
    and np: "\<not> prevIsLoadingRef p'"
    by (auto simp: validationEffect_def idle_def split: if_splits)
  have R: "runEffects jp (ls @ f # fs) p = runEffects jp ls p @ (b, p') # runEffects jp fs p'"
    using assms(1) by (simp add: run_append last e)
  have len: "length (runEffects jp ls p) = length ls" by (simp add: L)
  have 1: "map fst (runEffects jp (ls @ f # fs) p)
           = replicate (length ls) ResetToIdle
             @ (if outputText f \<noteq> [] then Validated else ResetToIdle)
             # map (\<lambda>r. if outputText r = [] then ResetToIdle else Unchanged) fs"
    using run_finished[OF assms(4) np, of jp]
    by (simp add: R L b map_replicate_const comp_def)
  have 2: "validation (snd (runEffects jp (ls @ f # fs) p ! length ls))
           = (if outputText f \<noteq> [] then validateOutput jp (outputText f) (outputFormat f)
              else idle)"
    using len by (simp add: R nth_append v)
  have 3: "\<forall>r\<in>set ls. \<forall>q. validation (snd (validationEffect jp r q)) = idle"
    using assms(2) by (simp add: effect_loading)
  have 4: "\<forall>r q. outputText r = [] \<longrightarrow> validation (snd (validationEffect jp r q)) = idle"
    by (simp add: validationEffect_def idle_def)
  from 1 2 3 4 show ?thesis by blast
qed

theorem validation_once_per_generation_witness:
  "map fst (runEffects (\<lambda>t. False)
       [renderLoading [], renderLoading (js ''a'' @ [0x09] @ js ''b''),
        renderFinished (js ''a'' @ [0x09] @ js ''b'') Tsv,
        renderFinished (js ''a'' @ [0x09] @ js ''b'') Csv]
       \<lparr> validation = idle, prevIsLoadingRef = False \<rparr>)
     = [ResetToIdle, ResetToIdle, Validated, Unchanged]
   \<and> status (validation (snd (runEffects (\<lambda>t. False)
       [renderLoading [], renderLoading (js ''a'' @ [0x09] @ js ''b''),
        renderFinished (js ''a'' @ [0x09] @ js ''b'') Tsv,
        renderFinished (js ''a'' @ [0x09] @ js ''b'') Csv]
       \<lparr> validation = idle, prevIsLoadingRef = False \<rparr> ! 2))) = Valid"
proof -
  have v: "status (validateOutput (\<lambda>t. False) (js ''a'' @ [0x09] @ js ''b'') Tsv) = Valid"
    by (simp add: validateOutput_def js_split_def js_eval)
  have r: "isLoading (renderLoading out)" "\<not> isLoading (renderFinished out fmt)"
    "outputText (renderFinished out fmt) = out" "outputFormat (renderFinished out fmt) = fmt"
    for out fmt
    by (simp_all add: renderLoading_def renderFinished_def session_def)
  have ne: "js ''a'' @ [0x09] @ js ''b'' \<noteq> []" by (simp add: js_def)
  show ?thesis
    using validation_once_per_generation
      [where ls = "[renderLoading [], renderLoading (js ''a'' @ [0x09] @ js ''b'')]"
         and f = "renderFinished (js ''a'' @ [0x09] @ js ''b'') Tsv"
         and fs = "[renderFinished (js ''a'' @ [0x09] @ js ''b'') Csv]"
         and jp = "\<lambda>t. False" and p = "\<lparr> validation = idle, prevIsLoadingRef = False \<rparr>"] v ne
    by (simp add: r numeral_2_eq_2 del: runEffects.simps)
qed

section \<open>The prompt builder: the quantity instruction\<close>














section \<open>The highlighted preview\<close>

lemma previewFlags_g: "previewFlags (js ''g'') = js ''gd''"
  by (simp add: previewFlags_def js_def)

lemma previewFlags_g_units: "previewFlags [0x67] = [0x67, 0x64]"
  using previewFlags_g by (simp add: js_def)

text \<open>
  Claim C2 at an input where the code departs from it.  The first group of the pattern
  is captured inside a lookahead, so its span reaches beyond the match and the span of
  the second match starts before the first span ends.  The loop tests only
  \<open>start > lastIndex\<close>: it emits the second span as it is, and the two highlighted
  segments overlap.  Their texts put side by side are \<open>aaaa\<close>, not the text \<open>aaa\<close>.
\<close>

theorem preview_duplicates_overlapping_spans:
  "highlight lookaheadHost Regex (js ''aaa'') lookaheadPattern (js ''g'')
     = \<lparr> highlightedContent = [Span 0 (js ''aa''), Span 1 (js ''aa'')], matchCount = 2,
         regexError = None \<rparr>"
  by (simp add: highlight_def previewFlags_g_units newRegExp_def matchAll_def lookaheadHost_def
      lookaheadPattern_def highlightMatch_def chosenIndices_def substring_def enumerate_eq_zip
      js_eval)

theorem preview_duplicates_overlapping_spans_witness:
  "concat (map partText (highlightedContent
      (highlight lookaheadHost Regex (js ''aaa'') lookaheadPattern (js ''g'')))) = js ''aaaa''
   \<and> js ''aaaa'' \<noteq> js ''aaa''"
  using preview_duplicates_overlapping_spans by (simp add: js_def)

text \<open>
  Where the chosen spans are in order, the segments do reconstruct the text: this is
  the case for every pattern whose first group lies within its match, since the
  matches of a global scan do not overlap.
\<close>

lemma orderedSpans_le: "orderedSpans li ms n \<Longrightarrow> li \<le> n"
proof (induction ms arbitrary: li)
  case Nil
  then show ?case by simp
next
  case (Cons m ms)
  from Cons.prems obtain s e where "li \<le> s" "s \<le> e" "orderedSpans e ms n"
    by (auto split: option.splits)
  with Cons.IH[of e] show ?case by simp
qed

lemma take_take_drop: "a \<le> b \<Longrightarrow> take a xs @ take (b - a) (drop a xs) = take b xs"
  by (metis le_add_diff_inverse take_add)

lemma substring_ordered:
  "a \<le> b \<Longrightarrow> b \<le> length s \<Longrightarrow> substring s a b = take (b - a) (drop a s)"
  by (simp add: substring_def Let_def min_def max_def)

lemma highlight_fold:
  assumes "orderedSpans li ms (length text)" "concat (map partText parts) = take li text"
  shows "case foldl (highlightMatch text) (li, parts) (enumerate k ms) of
           (li', parts') \<Rightarrow> concat (map partText parts') = take li' text \<and> li' \<le> length text"
  using assms
proof (induction ms arbitrary: li parts k)
  case Nil
  then show ?case by simp
next
  case (Cons m ms)
  from Cons.prems(1) obtain s e where c: "chosenIndices m = Some (s, e)"
    and o: "li \<le> s" "s \<le> e" "orderedSpans e ms (length text)"
    by (auto split: option.splits)
  from o(3) have e: "e \<le> length text" by (rule orderedSpans_le)
  define parts1 where "parts1 = (if s > li then parts @ [Plain (substring text li s)] else parts)"
  have step: "highlightMatch text (li, parts) (k, m) = (e, parts1 @ [Span k (substring text s e)])"
    by (simp add: highlightMatch_def c Let_def parts1_def)
  have p1: "concat (map partText parts1) = take s text"
  proof (cases "s > li")
    case True
    with o e have "substring text li s = take (s - li) (drop li text)"
      by (simp add: substring_ordered)
    with True Cons.prems(2) o show ?thesis by (simp add: parts1_def take_take_drop)
  next
    case False
    with o have "s = li" by simp
    with Cons.prems(2) show ?thesis by (simp add: parts1_def)
  qed
  have "concat (map partText (parts1 @ [Span k (substring text s e)]))
      = take s text @ take (e - s) (drop s text)"
    using o e by (simp add: p1 substring_ordered)
  then have "concat (map partText (parts1 @ [Span k (substring text s e)])) = take e text"
    using o by (simp only: take_take_drop)
  from Cons.IH[OF o(3) this, of "Suc k"] show ?case
    by (simp add: step)
qed

lemma preview_reconstructs_text_when_spans_ordered:
  assumes "rx_error H pattern (previewFlags flags) = None \<longrightarrow>
           orderedSpans 0 (rx_scan H pattern (previewFlags flags) text) (length text)"
  shows "concat (map partText (highlightedContent (highlight H method text pattern flags))) = text"
proof (cases "method \<noteq> Regex \<or> text = [] \<or> blank pattern")
  case True
  then show ?thesis by (auto simp: highlight_def)
next
  case False
  show ?thesis
  proof (cases "rx_error H pattern (previewFlags flags)")
    case (Some msg)
    with False show ?thesis by (simp add: highlight_def newRegExp_def)
  next
    case None
    show ?thesis
    proof (cases "0x67 \<in> set (previewFlags flags)")
      case g: False
      with False None show ?thesis by (simp add: highlight_def newRegExp_def matchAll_def)
    next
      case g: True
      let ?ms = "rx_scan H pattern (previewFlags flags) text"
      show ?thesis
      proof (cases "?ms = []")
        case True
        with False None g show ?thesis by (simp add: highlight_def newRegExp_def matchAll_def)
      next
        case ne: False
        from assms None have "orderedSpans 0 ?ms (length text)" by simp
        from highlight_fold[OF this, of "[]" 0]
        obtain li parts where f: "foldl (highlightMatch text) (0, []) (enumerate 0 ?ms) = (li, parts)"
          and c: "concat (map partText parts) = take li text" and l: "li \<le> length text"
          by (cases "foldl (highlightMatch text) (0, []) (enumerate 0 ?ms)") auto
        have "concat (map partText (if li < length text
                then parts @ [Plain (substring text li (length text))] else parts)) = text"
          using c l by (auto simp: substring_ordered)
        with False None g ne f show ?thesis
          by (simp add: highlight_def newRegExp_def matchAll_def)
      qed
    qed
  qed
qed

lemma bold_preview:
  "highlight boldHost Regex boldText boldPattern (js ''g'')
     = \<lparr> highlightedContent =
           [Plain (js ''**''), Span 0 (js ''foo''), Plain (js ''** and **''), Span 1 (js ''bar''),
            Plain (js ''**'')],
         matchCount = 2, regexError = None \<rparr>"
  by (simp add: highlight_def previewFlags_g_units newRegExp_def matchAll_def boldHost_def
      boldText_def boldPattern_def highlightMatch_def chosenIndices_def substring_def
      enumerate_eq_zip js_eval)

end
